theory Spec2Isabelle
  imports Main
begin

section \<open>The Artifactory wrapper of artifactory\_api.py\<close>

text \<open>
  The module wraps the client class ArtifactoryPath of an external library. The
  wrapper's own logic is embedded here: the construction of the listing URL, the two
  selection loops, and the download procedure. What the library and the operating
  system provide is taken as data: the entries a client enumerates, an entry's name,
  metadata and bytes, and the files on disk. Calls into the client library (listing,
  metadata, reading the remote stream) are assumed to return: their failures pass
  through the wrapper unchanged and are not modelled. The one operating-system call the
  wrapper makes itself, opening the destination file for writing, can fail in the model
  as it can in the code.
\<close>

subsection \<open>Data\<close>

text \<open>
  A Python value that the wrapper never inspects, known only by its identity: the
  positional and keyword arguments forwarded unread to ArtifactoryPath are of this kind.
\<close>

datatype py_object = Object nat

text \<open>The result of \<^verbatim>\<open>artifact.stat()\<close>; the wrapper reads only \<^verbatim>\<open>mime_type\<close>.\<close>

record artifact_stat =
  mime_type :: string

text \<open>
  An entry yielded by iterating the client: \<^verbatim>\<open>artifact.name\<close>, \<^verbatim>\<open>artifact.stat()\<close>, and
  the bytes that \<^verbatim>\<open>artifact.open().read()\<close> returns.
\<close>

record entry =
  name :: string
  stat :: artifact_stat
  stream :: string

text \<open>
  The client object \<^verbatim>\<open>ArtifactoryPath(url, auth=(username, password), *args, **kwargs)\<close>,
  as the arguments it was created from.
\<close>

record artifactory_path =
  path_url :: string
  auth :: "string \<times> string"
  args :: "py_object list"
  kwargs :: "(string \<times> py_object) list"

text \<open>
  The attributes of an Artifactory instance. The first seven are assigned before
  \<^verbatim>\<open>_construct_url\<close> runs, the client after it, so the client is an extension of the record
  of the plain fields.
\<close>

record fields =
  url :: string
  repo :: string
  group :: string
  artifact :: string
  version :: string
  username :: string
  password :: string

record artifactory = fields +
  client :: artifactory_path

text \<open>
  Everything outside the instance that the wrapper reads or writes: what each client
  enumerates (\<^verbatim>\<open>list(self.client)\<close>), the files on the local disk by path, the paths the
  operating system refuses to open for writing (a missing directory, a directory at the
  path, missing permissions) with the kind of OSError it raises there, and the calls made
  to the logger, oldest first.
\<close>

datatype level = DEBUG | INFO

datatype os_error =
  FileNotFoundError | IsADirectoryError | NotADirectoryError | PermissionError

record world =
  server :: "artifactory_path \<Rightarrow> entry list"
  files :: "string \<rightharpoonup> string"
  open_refused :: "string \<rightharpoonup> os_error"
  log :: "(level \<times> string) list"

text \<open>
  The exceptions the wrapper's own code raises: \<^verbatim>\<open>Exception(message)\<close> in
  \<^verbatim>\<open>get_by_name\<close>, the interpreter's UnboundLocalError for a local variable read
  before any assignment (it carries the variable's name), and the OSError of a failed
  \<^verbatim>\<open>open\<close> (its kind and the path).
\<close>

datatype error = Exception string | UnboundLocalError string | OSError os_error string

subsection \<open>Constants and helpers\<close>

definition TMP_DIR :: string where
  "TMP_DIR = ''/tmp''"

text \<open>The default of the parameter \<^verbatim>\<open>mime_type\<close> of \<^verbatim>\<open>get_latest\<close>.\<close>

definition default_mime_type :: string where
  "default_mime_type = ''application/java-archive''"

definition log_info :: "string \<Rightarrow> world \<Rightarrow> world" where
  "log_info msg w = w\<lparr>log := log w @ [(INFO, msg)]\<rparr>"

definition log_debug :: "string \<Rightarrow> world \<Rightarrow> world" where
  "log_debug msg w = w\<lparr>log := log w @ [(DEBUG, msg)]\<rparr>"

text \<open>
  \<^verbatim>\<open>os.path.join(a, b)\<close> of the standard library on POSIX, for two arguments: an absolute
  \<^verbatim>\<open>b\<close> replaces \<^verbatim>\<open>a\<close>; otherwise the two are concatenated, with a separator unless \<^verbatim>\<open>a\<close>
  is empty or already ends with one.
\<close>

definition startswith_sep :: "string \<Rightarrow> bool" where
  "startswith_sep b = (case b of [] \<Rightarrow> False | c # _ \<Rightarrow> c = CHR ''/'')"

definition endswith_sep :: "string \<Rightarrow> bool" where
  "endswith_sep a = (case rev a of [] \<Rightarrow> False | c # _ \<Rightarrow> c = CHR ''/'')"

definition os_path_join :: "string \<Rightarrow> string \<Rightarrow> string" where
  "os_path_join a b =
     (if startswith_sep b then b
      else if a = [] \<or> endswith_sep a then a @ b
      else a @ ''/'' @ b)"

text \<open>
  \<^verbatim>\<open>open(p, "wb")\<close>: the exception it raises, if any. Where the operating system refuses
  the path, its error is raised. A path that ends with the separator names a directory
  and is never opened for writing: without another refusal the error is
  IsADirectoryError.
\<close>

definition open_wb :: "world \<Rightarrow> string \<Rightarrow> error option" where
  "open_wb w p =
     (case open_refused w p of
        Some k \<Rightarrow> Some (OSError k p)
      | None \<Rightarrow> if endswith_sep p then Some (OSError IsADirectoryError p) else None)"

text \<open>
  After a successful \<^verbatim>\<open>open(p, "wb")\<close>, the single \<^verbatim>\<open>write\<close>: the file at \<^verbatim>\<open>p\<close> holds exactly
  the bytes written.
\<close>

definition write_file :: "string \<Rightarrow> string \<Rightarrow> world \<Rightarrow> world" where
  "write_file p bytes w = w\<lparr>files := (files w)(p \<mapsto> bytes)\<rparr>"

subsection \<open>Construction\<close>

text \<open>
  \<^verbatim>\<open>_construct_url\<close>: the format string
  \<^verbatim>\<open>"{url}/artifactory/{repo}/{group}/{artifact}/{version}"\<close> filled from the attributes, a
  debug log call, and the URL returned.
\<close>

definition construct_url :: "'a fields_scheme \<Rightarrow> world \<Rightarrow> string \<times> world" where
  "construct_url self w =
     (let u = url self @ ''/artifactory/'' @ repo self @ ''/'' @ group self @ ''/''
                @ artifact self @ ''/'' @ version self
      in (u, log_debug (''Url constructed to '' @ u) w))"

text \<open>
  \<^verbatim>\<open>__init__\<close>: the seven attributes are stored, then the client is created from the
  constructed URL, the credentials and the forwarded arguments. The forwarded keyword
  arguments are taken not to name \<^verbatim>\<open>auth\<close> again, which the call of ArtifactoryPath would
  answer with a TypeError.
\<close>

definition init ::
  "string \<Rightarrow> string \<Rightarrow> string \<Rightarrow> string \<Rightarrow> string \<Rightarrow> string \<Rightarrow> string \<Rightarrow>
   py_object list \<Rightarrow> (string \<times> py_object) list \<Rightarrow> world \<Rightarrow> artifactory \<times> world" where
  "init url' repo' group' artifact' version' username' password' args' kwargs' w =
     (let self = \<lparr>url = url', repo = repo', group = group', artifact = artifact',
                  version = version', username = username', password = password'\<rparr>;
          (u, w') = construct_url self w
      in (fields.extend self
            \<lparr>client = \<lparr>path_url = u, auth = (username self, password self),
                        args = args', kwargs = kwargs'\<rparr>\<rparr>,
          w'))"

text \<open>
  A call of the constructor with optional arguments: \<^verbatim>\<open>url\<close> is required; \<^verbatim>\<open>repo\<close>,
  \<^verbatim>\<open>group\<close>, \<^verbatim>\<open>artifact\<close>, \<^verbatim>\<open>version\<close>, \<^verbatim>\<open>username\<close> and \<^verbatim>\<open>password\<close> default to the empty string.
\<close>

definition or_default :: "string option \<Rightarrow> string \<Rightarrow> string" where
  "or_default given d = (case given of None \<Rightarrow> d | Some s \<Rightarrow> s)"

definition init_call ::
  "string \<Rightarrow> string option \<Rightarrow> string option \<Rightarrow> string option \<Rightarrow> string option \<Rightarrow>
   string option \<Rightarrow> string option \<Rightarrow> py_object list \<Rightarrow> (string \<times> py_object) list \<Rightarrow>
   world \<Rightarrow> artifactory \<times> world" where
  "init_call url' repo' group' artifact' version' username' password' args' kwargs' w =
     init url' (or_default repo' '''') (or_default group' '''') (or_default artifact' '''')
       (or_default version' '''') (or_default username' '''') (or_default password' '''')
       args' kwargs' w"

subsection \<open>Selection\<close>

text \<open>
  The loop of \<^verbatim>\<open>get_by_name\<close> over the reversed listing. The result is the value of the
  local variable \<^verbatim>\<open>matched_artifact\<close> when the loop is left: \<open>Some\<close> after the
  \<^verbatim>\<open>break\<close>, \<open>None\<close> when the listing is exhausted.
\<close>

fun get_by_name_loop :: "string \<Rightarrow> entry list \<Rightarrow> entry option" where
  "get_by_name_loop artifact_name [] = None"
| "get_by_name_loop artifact_name (a # rest) =
     (if name a = artifact_name then Some a else get_by_name_loop artifact_name rest)"

text \<open>
  \<^verbatim>\<open>get_by_name\<close>: the \<^verbatim>\<open>else\<close> of the loop raises; after a \<^verbatim>\<open>break\<close> the match is logged
  and returned. Each method returns its result, the instance and the world after it.
\<close>

definition get_by_name ::
  "artifactory \<Rightarrow> string \<Rightarrow> world \<Rightarrow> (error + entry) \<times> artifactory \<times> world" where
  "get_by_name self artifact_name w =
     (case get_by_name_loop artifact_name (rev (server w (client self))) of
        None \<Rightarrow> (Inl (Exception (''Artifact '' @ artifact_name @ '' not found.'')), self, w)
      | Some matched_artifact \<Rightarrow>
          (Inr matched_artifact, self,
           log_info (''Found artifact '' @ name matched_artifact) w))"

text \<open>
  The loop of \<^verbatim>\<open>get_latest\<close>; it has no \<^verbatim>\<open>else\<close>. The result is the value of the local
  variable \<^verbatim>\<open>latest_artifact\<close> after the loop: \<open>None\<close> when it was never assigned.
\<close>

fun get_latest_loop :: "string \<Rightarrow> entry list \<Rightarrow> entry option" where
  "get_latest_loop mime [] = None"
| "get_latest_loop mime (a # rest) =
     (if mime_type (stat a) = mime then Some a else get_latest_loop mime rest)"

text \<open>
  \<^verbatim>\<open>get_latest\<close>: the log call reads \<^verbatim>\<open>latest_artifact.name\<close>; reading the variable while
  it is unassigned raises UnboundLocalError before anything is logged.
\<close>

definition get_latest ::
  "artifactory \<Rightarrow> string \<Rightarrow> world \<Rightarrow> (error + entry) \<times> artifactory \<times> world" where
  "get_latest self mime w =
     (case get_latest_loop mime (rev (server w (client self))) of
        None \<Rightarrow> (Inl (UnboundLocalError ''latest_artifact''), self, w)
      | Some latest_artifact \<Rightarrow>
          (Inr latest_artifact, self,
           log_info (''Found latest artifact '' @ name latest_artifact) w))"

subsection \<open>Download\<close>

text \<open>
  The first statement of \<^verbatim>\<open>download\<close>, the \<^verbatim>\<open>if\<close>/\<^verbatim>\<open>else\<close> that assigns \<^verbatim>\<open>artifact\<close>: the branch
  tests the truth value of \<^verbatim>\<open>artifact_name\<close> (a string is true when it is not empty).
\<close>

definition select_artifact ::
  "artifactory \<Rightarrow> string \<Rightarrow> world \<Rightarrow> (error + entry) \<times> artifactory \<times> world" where
  "select_artifact self artifact_name w =
     (if artifact_name \<noteq> [] then get_by_name self artifact_name w
      else get_latest self default_mime_type w)"

text \<open>
  \<^verbatim>\<open>download\<close>: an exception of the selection leaves the method at once. Otherwise the
  destination is computed and logged, and the destination file is opened for writing;
  an OSError of that \<^verbatim>\<open>open\<close> leaves the method with the disk as it was. After a
  successful \<^verbatim>\<open>open\<close> the bytes of the entry are written and the entry is returned.
\<close>

definition download ::
  "artifactory \<Rightarrow> string \<Rightarrow> string \<Rightarrow> world \<Rightarrow> (error + entry) \<times> artifactory \<times> world" where
  "download self artifact_name path w =
     (case select_artifact self artifact_name w of
        (Inl e, self', w') \<Rightarrow> (Inl e, self', w')
      | (Inr art, self', w') \<Rightarrow>
          (let path' = (if path \<noteq> [] then path else TMP_DIR);
               artifactory_path = os_path_join path' (name art);
               w'' = log_info (''Downloading artifact '' @ name art @ '' to ''
                                 @ artifactory_path) w'
           in (case open_wb w'' artifactory_path of
                 Some e \<Rightarrow> (Inl e, self', w'')
               | None \<Rightarrow>
                   (Inr art, self', write_file artifactory_path (stream art) w''))))"

text \<open>
  A call of \<^verbatim>\<open>download\<close> with optional arguments: both parameters default to the empty
  string.
\<close>

definition download_call ::
  "artifactory \<Rightarrow> string option \<Rightarrow> string option \<Rightarrow> world \<Rightarrow>
   (error + entry) \<times> artifactory \<times> world" where
  "download_call self artifact_name path w =
     download self (or_default artifact_name '''') (or_default path '''') w"

subsection \<open>Example inputs\<close>

text \<open>
  A listing with two entries of the same name and MIME type (an older and a newer
  snapshot), a POM between and after them, and an entry whose name is empty.
\<close>

definition ex_jar_old :: entry where
  "ex_jar_old = \<lparr>name = ''a.jar'', stat = \<lparr>mime_type = ''application/java-archive''\<rparr>,
                  stream = ''old''\<rparr>"

definition ex_pom :: entry where
  "ex_pom = \<lparr>name = ''a.pom'', stat = \<lparr>mime_type = ''application/x-maven-pom+xml''\<rparr>,
              stream = ''<project/>''\<rparr>"

definition ex_jar_new :: entry where
  "ex_jar_new = \<lparr>name = ''a.jar'', stat = \<lparr>mime_type = ''application/java-archive''\<rparr>,
                  stream = ''new''\<rparr>"

definition ex_unnamed :: entry where
  "ex_unnamed = \<lparr>name = '''', stat = \<lparr>mime_type = ''text/plain''\<rparr>, stream = ''x''\<rparr>"


definition ex_listing :: "entry list" where
  "ex_listing = [ex_jar_old, ex_pom, ex_jar_new, ex_pom]"

text \<open>
  A world whose server lists \<open>xs\<close> under one URL and nothing elsewhere, with a stale file
  already on disk and no directory \<^verbatim>\<open>/missing\<close>.
\<close>

definition ex_world :: "entry list \<Rightarrow> world" where
  "ex_world xs =
     \<lparr>server = (\<lambda>c. if path_url c = ''https://h/artifactory/r/g/a/v'' then xs else []),
      files = [''/tmp/out/a.jar'' \<mapsto> ''stale''],
      open_refused = [''/missing/a.jar'' \<mapsto> FileNotFoundError],
      log = []\<rparr>"

text \<open>
  A world that differs from the one above in everything but the listing: every client
  is served \<open>xs\<close>, the disk is empty and refuses \<^verbatim>\<open>/tmp/out/a.jar\<close>, and the logger was
  called before.
\<close>

definition ex_world_any :: "entry list \<Rightarrow> world" where
  "ex_world_any xs =
     \<lparr>server = (\<lambda>c. xs), files = Map.empty,
      open_refused = [''/tmp/out/a.jar'' \<mapsto> PermissionError],
      log = [(INFO, ''earlier'')]\<rparr>"

definition ex_self :: artifactory where
  "ex_self = fst (init ''https://h'' ''r'' ''g'' ''a'' ''v'' ''user'' ''secret'' [] []
                    (ex_world []))"

section \<open>Properties\<close>

subsection \<open>Auxiliary facts\<close>

lemmas ex_defs = ex_jar_old_def ex_pom_def ex_jar_new_def ex_unnamed_def ex_listing_def
  ex_world_def ex_self_def init_def construct_url_def fields.extend_def log_debug_def Let_def

lemmas run_defs = download_def select_artifact_def get_by_name_def get_latest_def
  default_mime_type_def open_wb_def os_path_join_def startswith_sep_def endswith_sep_def
  TMP_DIR_def log_info_def

text \<open>
  The first match of a scan over the reversed list splits the list: the match, and behind
  it only elements that do not match.
\<close>

lemma find_rev_decompose:
  "find P (rev xs) = Some x \<Longrightarrow>
     \<exists>pre post. xs = pre @ x # post \<and> P x \<and> (\<forall>y\<in>set post. \<not> P y)"
proof (induction xs rule: rev_induct)
  case Nil
  then show ?case by simp
next
  case (snoc y ys)
  show ?case
  proof (cases "P y")
    case True
    with snoc.prems have "x = y" by simp
    with True have "ys @ [y] = ys @ x # [] \<and> P x \<and> (\<forall>z\<in>set []. \<not> P z)" by simp
    then show ?thesis by blast
  next
    case False
    with snoc.prems have "find P (rev ys) = Some x" by simp
    from snoc.IH[OF this] obtain pre post where
      "ys = pre @ x # post" "P x" "\<forall>z\<in>set post. \<not> P z" by blast
    with False have
      "ys @ [y] = pre @ x # (post @ [y]) \<and> P x \<and> (\<forall>z\<in>set (post @ [y]). \<not> P z)"
      by simp
    then show ?thesis by blast
  qed
qed

lemma get_by_name_loop_find: "get_by_name_loop n xs = find (\<lambda>a. name a = n) xs"
  by (induction xs) simp_all

lemma get_latest_loop_find:
  "get_latest_loop m xs = find (\<lambda>a. mime_type (stat a) = m) xs"
  by (induction xs) simp_all

lemma get_by_name_loop_None:
  "(get_by_name_loop n xs = None) = (\<forall>a\<in>set xs. name a \<noteq> n)"
  by (induction xs) simp_all

lemma get_latest_loop_None:
  "(get_latest_loop m xs = None) = (\<forall>a\<in>set xs. mime_type (stat a) \<noteq> m)"
  by (induction xs) simp_all

lemma get_by_name_loop_rev:
  assumes "get_by_name_loop n (rev xs) = Some x"
  shows "\<exists>pre post. xs = pre @ x # post \<and> name x = n \<and> (\<forall>y\<in>set post. name y \<noteq> n)"
  using find_rev_decompose[of "\<lambda>a. name a = n" xs x] assms
  by (simp add: get_by_name_loop_find)

lemma get_latest_loop_rev:
  assumes "get_latest_loop m (rev xs) = Some x"
  shows "\<exists>pre post. xs = pre @ x # post \<and> mime_type (stat x) = m
           \<and> (\<forall>y\<in>set post. mime_type (stat y) \<noteq> m)"
  using find_rev_decompose[of "\<lambda>a. mime_type (stat a) = m" xs x] assms
  by (simp add: get_latest_loop_find)





text \<open>The instance that the constructor returns.\<close>

lemma init_value:
  "fst (init u r g a v un pw ar kw w) =
     \<lparr>url = u, repo = r, group = g, artifact = a, version = v, username = un, password = pw,
      client = \<lparr>path_url = u @ ''/artifactory/'' @ r @ ''/'' @ g @ ''/'' @ a @ ''/'' @ v,
                 auth = (un, pw), args = ar, kwargs = kw\<rparr>\<rparr>"
  by (simp add: init_def construct_url_def fields.extend_def Let_def)

text \<open>What each method does to the instance.\<close>

lemma get_by_name_self: "fst (snd (get_by_name self n w)) = self"
  by (simp add: get_by_name_def split: option.splits)

lemma get_latest_self: "fst (snd (get_latest self m w)) = self"
  by (simp add: get_latest_def split: option.splits)

lemma select_artifact_self: "fst (snd (select_artifact self n w)) = self"
  by (simp add: select_artifact_def get_by_name_self get_latest_self)

lemma download_self: "fst (snd (download self n p w)) = self"
proof -
  obtain r self' w' where sel: "select_artifact self n w = (r, self', w')"
    by (cases "select_artifact self n w") auto
  with select_artifact_self[of self n w] have "self' = self" by simp
  with sel show ?thesis
    by (cases r) (simp_all add: download_def Let_def split: option.splits)
qed

text \<open>
  How the outcome of \<open>download\<close> follows from the selection: an exception of the
  selection is the exception of \<open>download\<close>, and an entry that \<open>download\<close> returns is the
  entry selected.
\<close>

lemma download_select_Inl:
  assumes "fst (select_artifact self n w) = Inl err"
  shows "fst (download self n p w) = Inl err"
proof -
  obtain r self' w' where sel: "select_artifact self n w = (r, self', w')"
    by (cases "select_artifact self n w") auto
  with assms have "r = Inl err" by simp
  with sel show ?thesis by (simp add: download_def)
qed

lemma download_Inr_select:
  assumes "fst (download self n p w) = Inr e"
  shows "fst (select_artifact self n w) = Inr e"
proof -
  obtain r self' w' where sel: "select_artifact self n w = (r, self', w')"
    by (cases "select_artifact self n w") auto
  with assms show ?thesis
    by (cases r) (auto simp: download_def Let_def split: option.splits)
qed




text \<open>
  Whatever the listing, \<open>get_latest\<close> without a match ends in the unbound local variable,
  with nothing logged and nothing changed.
\<close>

lemma get_latest_no_match:
  assumes "\<forall>e\<in>set (server w (client self)). mime_type (stat e) \<noteq> m"
  shows "get_latest self m w = (Inl (UnboundLocalError ''latest_artifact''), self, w)"
proof -
  from assms have "get_latest_loop m (rev (server w (client self))) = None"
    by (simp add: get_latest_loop_None)
  then show ?thesis by (simp add: get_latest_def)
qed

subsection \<open>Selection by MIME type without a match\<close>

text \<open>
  C1. The claim asks that \<open>get_latest\<close> on a listing with no entry of the requested MIME
  type raise an explicit not-found error, and that the log call not fault. The code does
  neither: on a listing holding only a POM and a text file, and on the empty listing,
  the log call's read of \<^verbatim>\<open>latest_artifact\<close> raises UnboundLocalError, where the sibling
  \<open>get_by_name\<close> raises its \<open>Exception\<close>.
\<close>

theorem get_latest_no_match_unbound_local:
  "fst (get_latest ex_self ''application/java-archive'' (ex_world [ex_pom, ex_unnamed]))
     = Inl (UnboundLocalError ''latest_artifact'')
   \<and> fst (get_latest ex_self ''application/java-archive'' (ex_world []))
     = Inl (UnboundLocalError ''latest_artifact'')
   \<and> fst (get_by_name ex_self ''a.jar'' (ex_world [ex_pom, ex_unnamed]))
     = Inl (Exception ''Artifact a.jar not found.'')"
  by (simp add: get_latest_def get_by_name_def ex_defs)

subsection \<open>Selection by name\<close>

text \<open>
  C2. When the listing has an entry named \<open>X\<close>, \<open>get_by_name\<close> returns an entry named
  \<open>X\<close>, and it is the one closest to the end of the listing: every entry behind it has
  another name.
\<close>

theorem get_by_name_last_match:
  assumes "\<exists>e\<in>set (server w (client self)). name e = X"
  shows "\<exists>pre e post. server w (client self) = pre @ e # post \<and> name e = X
           \<and> (\<forall>e'\<in>set post. name e' \<noteq> X)
           \<and> fst (get_by_name self X w) = Inr e"
proof -
  let ?xs = "server w (client self)"
  from assms have "get_by_name_loop X (rev ?xs) \<noteq> None"
    by (simp add: get_by_name_loop_None)
  then obtain e where e: "get_by_name_loop X (rev ?xs) = Some e" by blast
  from get_by_name_loop_rev[OF e] obtain pre post where
    "?xs = pre @ e # post" "name e = X" "\<forall>e'\<in>set post. name e' \<noteq> X" by blast
  moreover from e have "fst (get_by_name self X w) = Inr e"
    by (simp add: get_by_name_def)
  ultimately show ?thesis by blast
qed

theorem get_by_name_last_match_witness:
  "(\<exists>e\<in>set (server (ex_world ex_listing) (client ex_self)). name e = ''a.jar'')
   \<and> (\<exists>pre e post. server (ex_world ex_listing) (client ex_self) = pre @ e # post
         \<and> name e = ''a.jar'' \<and> (\<forall>e'\<in>set post. name e' \<noteq> ''a.jar'')
         \<and> fst (get_by_name ex_self ''a.jar'' (ex_world ex_listing)) = Inr e)
   \<and> fst (get_by_name ex_self ''a.jar'' (ex_world ex_listing)) = Inr ex_jar_new"
proof -
  have h: "\<exists>e\<in>set (server (ex_world ex_listing) (client ex_self)). name e = ''a.jar''"
    by (simp add: ex_defs)
  have v: "fst (get_by_name ex_self ''a.jar'' (ex_world ex_listing)) = Inr ex_jar_new"
    by (simp add: get_by_name_def ex_defs)
  from h get_by_name_last_match[OF h] v show ?thesis by blast
qed

text \<open>
  C3. When no entry of the listing has the requested name (the empty listing included),
  \<open>get_by_name\<close> raises its \<open>Exception\<close>, whose message holds the requested name; the
  instance and the world are as before the call.
\<close>

theorem get_by_name_not_found:
  assumes "\<forall>e\<in>set (server w (client self)). name e \<noteq> X"
  shows "get_by_name self X w
           = (Inl (Exception (''Artifact '' @ X @ '' not found.'')), self, w)"
proof -
  from assms have "get_by_name_loop X (rev (server w (client self))) = None"
    by (simp add: get_by_name_loop_None)
  then show ?thesis by (simp add: get_by_name_def)
qed

theorem get_by_name_not_found_witness:
  "server (ex_world []) (client ex_self) = []
   \<and> get_by_name ex_self ''nonexistent'' (ex_world [])
       = (Inl (Exception ''Artifact nonexistent not found.''), ex_self, ex_world [])
   \<and> get_by_name ex_self ''nonexistent'' (ex_world ex_listing)
       = (Inl (Exception ''Artifact nonexistent not found.''), ex_self, ex_world ex_listing)"
proof -
  have h0: "\<forall>e\<in>set (server (ex_world []) (client ex_self)). name e \<noteq> ''nonexistent''"
    by (simp add: ex_defs)
  have h1:
    "\<forall>e\<in>set (server (ex_world ex_listing) (client ex_self)). name e \<noteq> ''nonexistent''"
    by (simp add: ex_defs)
  have e: "server (ex_world []) (client ex_self) = []"
    by (simp add: ex_defs)
  from e get_by_name_not_found[OF h0] get_by_name_not_found[OF h1] show ?thesis by simp
qed

subsection \<open>Selection by MIME type\<close>

text \<open>
  C4. When the listing has an entry whose metadata MIME type is \<open>M\<close>, \<open>get_latest\<close>
  returns the entry of that type closest to the end of the listing: every entry behind
  it has another type.
\<close>

theorem get_latest_last_match:
  assumes "\<exists>e\<in>set (server w (client self)). mime_type (stat e) = M"
  shows "\<exists>pre e post. server w (client self) = pre @ e # post \<and> mime_type (stat e) = M
           \<and> (\<forall>e'\<in>set post. mime_type (stat e') \<noteq> M)
           \<and> fst (get_latest self M w) = Inr e"
proof -
  let ?xs = "server w (client self)"
  from assms have "get_latest_loop M (rev ?xs) \<noteq> None"
    by (simp add: get_latest_loop_None)
  then obtain e where e: "get_latest_loop M (rev ?xs) = Some e" by blast
  from get_latest_loop_rev[OF e] obtain pre post where
    "?xs = pre @ e # post" "mime_type (stat e) = M"
    "\<forall>e'\<in>set post. mime_type (stat e') \<noteq> M"
    by blast
  moreover from e have "fst (get_latest self M w) = Inr e"
    by (simp add: get_latest_def)
  ultimately show ?thesis by blast
qed

theorem get_latest_last_match_witness:
  "(\<exists>e\<in>set (server (ex_world ex_listing) (client ex_self)).
        mime_type (stat e) = ''application/java-archive'')
   \<and> (\<exists>pre e post. server (ex_world ex_listing) (client ex_self) = pre @ e # post
         \<and> mime_type (stat e) = ''application/java-archive''
         \<and> (\<forall>e'\<in>set post. mime_type (stat e') \<noteq> ''application/java-archive'')
         \<and> fst (get_latest ex_self ''application/java-archive'' (ex_world ex_listing))
             = Inr e)
   \<and> fst (get_latest ex_self ''application/java-archive'' (ex_world ex_listing))
       = Inr ex_jar_new"
proof -
  have h: "\<exists>e\<in>set (server (ex_world ex_listing) (client ex_self)).
              mime_type (stat e) = ''application/java-archive''"
    by (simp add: ex_defs)
  have v: "fst (get_latest ex_self ''application/java-archive'' (ex_world ex_listing))
             = Inr ex_jar_new"
    by (simp add: get_latest_def ex_defs)
  from h get_latest_last_match[OF h] v show ?thesis by blast
qed

subsection \<open>Download\<close>

text \<open>
  C5. A call of \<open>download\<close> without an artifact name is the call with the empty name,
  whatever the path argument. The selection of both is \<open>get_latest\<close> with the MIME type
  \<^verbatim>\<open>application/java-archive\<close>: an exception of that \<open>get_latest\<close> is the exception of the
  call, and an entry the call returns is the entry that \<open>get_latest\<close> returns. With a
  name that is not empty the selection is \<open>get_by_name\<close> in the same way.
\<close>

theorem download_default_arguments:
  "download_call self None p w = download_call self (Some '''') p w
   \<and> download_call self None None w = download self '''' '''' w
   \<and> select_artifact self '''' w = get_latest self ''application/java-archive'' w
   \<and> (fst (get_latest self ''application/java-archive'' w) = Inl err \<longrightarrow>
        fst (download_call self None p w) = Inl err)
   \<and> (fst (download_call self None p w) = Inr e \<longrightarrow>
        fst (get_latest self ''application/java-archive'' w) = Inr e)
   \<and> (n \<noteq> [] \<longrightarrow> select_artifact self n w = get_by_name self n w)
   \<and> (n \<noteq> [] \<and> fst (get_by_name self n w) = Inl err \<longrightarrow>
        fst (download_call self (Some n) p w) = Inl err)
   \<and> (n \<noteq> [] \<and> fst (download_call self (Some n) p w) = Inr e \<longrightarrow>
        fst (get_by_name self n w) = Inr e)"
proof -
  have unnamed: "select_artifact self '''' w = get_latest self ''application/java-archive'' w"
    by (simp add: select_artifact_def default_mime_type_def)
  have named: "select_artifact self n w = get_by_name self n w" if "n \<noteq> []"
    using that by (simp add: select_artifact_def)
  have call: "download_call self None p w = download self '''' (or_default p '''') w"
    "download_call self (Some '''') p w = download self '''' (or_default p '''') w"
    "download_call self (Some n) p w = download self n (or_default p '''') w"
    "download_call self None None w = download self '''' '''' w"
    by (simp_all add: download_call_def or_default_def)
  have c1: "fst (download_call self None p w) = Inl err"
    if "fst (get_latest self ''application/java-archive'' w) = Inl err"
    using that unnamed download_select_Inl[of self "''''" w err "or_default p ''''"]
    by (simp add: call)
  have c2: "fst (get_latest self ''application/java-archive'' w) = Inr e"
    if "fst (download_call self None p w) = Inr e"
    using download_Inr_select[of self "''''" "or_default p ''''" w e] that unnamed
    by (simp add: call)
  have c3: "fst (download_call self (Some n) p w) = Inl err"
    if "n \<noteq> []" "fst (get_by_name self n w) = Inl err"
    using that named download_select_Inl[of self n w err "or_default p ''''"]
    by (simp add: call)
  have c4: "fst (get_by_name self n w) = Inr e"
    if "n \<noteq> []" "fst (download_call self (Some n) p w) = Inr e"
    using download_Inr_select[of self n "or_default p ''''" w e] that named
    by (simp add: call)
  from call(1,2) have "download_call self None p w = download_call self (Some '''') p w"
    by simp
  with call(4) unnamed named c1 c2 c3 c4 show ?thesis by blast
qed

theorem download_default_arguments_witness:
  "download_call ex_self None None (ex_world ex_listing)
     = download_call ex_self (Some '''') None (ex_world ex_listing)
   \<and> fst (get_latest ex_self ''application/java-archive'' (ex_world [ex_pom]))
       = Inl (UnboundLocalError ''latest_artifact'')
   \<and> fst (download_call ex_self None None (ex_world [ex_pom]))
       = Inl (UnboundLocalError ''latest_artifact'')
   \<and> fst (download_call ex_self None None (ex_world ex_listing)) = Inr ex_jar_new
   \<and> fst (get_latest ex_self ''application/java-archive'' (ex_world ex_listing))
       = Inr ex_jar_new
   \<and> ''a.pom'' \<noteq> []
   \<and> select_artifact ex_self ''a.pom'' (ex_world ex_listing)
       = get_by_name ex_self ''a.pom'' (ex_world ex_listing)
   \<and> fst (get_by_name ex_self ''a.pom'' (ex_world [ex_jar_old]))
       = Inl (Exception ''Artifact a.pom not found.'')
   \<and> fst (download_call ex_self (Some ''a.pom'') None (ex_world [ex_jar_old]))
       = Inl (Exception ''Artifact a.pom not found.'')
   \<and> fst (download_call ex_self (Some ''a.pom'') None (ex_world ex_listing)) = Inr ex_pom
   \<and> fst (get_by_name ex_self ''a.pom'' (ex_world ex_listing)) = Inr ex_pom
   \<and> fst (download_call ex_self None (Some ''/missing'') (ex_world ex_listing))
       = Inl (OSError FileNotFoundError ''/missing/a.jar'')"
proof -
  have h: "''a.pom'' \<noteq> []" by simp
  have l0: "fst (get_latest ex_self ''application/java-archive'' (ex_world [ex_pom]))
              = Inl (UnboundLocalError ''latest_artifact'')"
    by (simp add: get_latest_def ex_defs)
  have d1: "fst (download_call ex_self None None (ex_world ex_listing)) = Inr ex_jar_new"
    by (simp add: download_call_def or_default_def download_def select_artifact_def
        get_latest_def default_mime_type_def open_wb_def os_path_join_def startswith_sep_def
        endswith_sep_def TMP_DIR_def log_info_def ex_defs)
  have g0: "fst (get_by_name ex_self ''a.pom'' (ex_world [ex_jar_old]))
              = Inl (Exception ''Artifact a.pom not found.'')"
    by (simp add: get_by_name_def ex_defs)
  have d2: "fst (download_call ex_self (Some ''a.pom'') None (ex_world ex_listing)) = Inr ex_pom"
    by (simp add: download_call_def or_default_def download_def select_artifact_def
        get_by_name_def open_wb_def os_path_join_def startswith_sep_def
        endswith_sep_def TMP_DIR_def log_info_def ex_defs)
  have d3: "fst (download_call ex_self None (Some ''/missing'') (ex_world ex_listing))
              = Inl (OSError FileNotFoundError ''/missing/a.jar'')"
    by (simp add: download_call_def or_default_def download_def select_artifact_def
        get_latest_def default_mime_type_def open_wb_def os_path_join_def startswith_sep_def
        endswith_sep_def log_info_def ex_defs)
  note t = download_default_arguments
  from t[of ex_self None "ex_world ex_listing" "UnboundLocalError ''latest_artifact''"
       ex_jar_new "''a.pom''"] d1 h
  have a: "download_call ex_self None None (ex_world ex_listing)
             = download_call ex_self (Some '''') None (ex_world ex_listing)
           \<and> fst (get_latest ex_self ''application/java-archive'' (ex_world ex_listing))
               = Inr ex_jar_new
           \<and> select_artifact ex_self ''a.pom'' (ex_world ex_listing)
               = get_by_name ex_self ''a.pom'' (ex_world ex_listing)"
    by blast
  from t[of ex_self None "ex_world [ex_pom]" "UnboundLocalError ''latest_artifact''"
       ex_jar_new "''a.pom''"] l0
  have b: "fst (download_call ex_self None None (ex_world [ex_pom]))
             = Inl (UnboundLocalError ''latest_artifact'')"
    by blast
  from t[of ex_self None "ex_world [ex_jar_old]" "Exception ''Artifact a.pom not found.''"
       ex_pom "''a.pom''"] h g0
  have c: "fst (download_call ex_self (Some ''a.pom'') None (ex_world [ex_jar_old]))
             = Inl (Exception ''Artifact a.pom not found.'')"
    by blast
  from t[of ex_self None "ex_world ex_listing" "Exception ''Artifact a.pom not found.''"
       ex_pom "''a.pom''"] h d2
  have d: "fst (get_by_name ex_self ''a.pom'' (ex_world ex_listing)) = Inr ex_pom"
    by blast
  from a b c d h l0 d1 g0 d2 d3 show ?thesis by blast
qed

text \<open>
  C7. When \<open>download\<close> returns an entry, that entry is the one its selection returned,
  and the files afterwards are the files before with one path rewritten: the join of the
  given path (of \<^verbatim>\<open>/tmp\<close> when the path is empty) and the entry's name now holds exactly
  the entry's bytes, whatever was there before.
\<close>

theorem download_writes_selected_entry:
  assumes "download self n p w = (Inr e, self', w')"
  shows "fst (if n \<noteq> [] then get_by_name self n w else get_latest self default_mime_type w)
           = Inr e
         \<and> files w' = (files w)(os_path_join (if p \<noteq> [] then p else ''/tmp'') (name e)
                                  \<mapsto> stream e)
         \<and> files w' (os_path_join (if p \<noteq> [] then p else ''/tmp'') (name e))
             = Some (stream e)"
proof -
  let ?sel = "if n \<noteq> [] then get_by_name self n w else get_latest self default_mime_type w"
  let ?dest = "os_path_join (if p \<noteq> [] then p else TMP_DIR) (name e)"
  obtain r s1 w1 where sel: "?sel = (r, s1, w1)"
    by (cases ?sel) auto
  then have sel': "select_artifact self n w = (r, s1, w1)"
    by (simp add: select_artifact_def)
  have fw: "files w1 = files w"
    using sel
    by (auto simp: get_by_name_def get_latest_def log_info_def split: if_splits option.splits)
  from assms sel' have r: "r = Inr e"
    by (cases r) (auto simp: download_def Let_def split: option.splits)
  from assms sel' r have
    "w' = write_file ?dest (stream e)
            (log_info (''Downloading artifact '' @ name e @ '' to '' @ ?dest) w1)"
    by (auto simp: download_def Let_def split: option.splits)
  then have "files w' = (files w)(os_path_join (if p \<noteq> [] then p else ''/tmp'') (name e)
                                  \<mapsto> stream e)"
    by (simp add: write_file_def log_info_def fw TMP_DIR_def)
  with sel r show ?thesis by simp
qed

theorem download_writes_selected_entry_witness:
  "(\<exists>w'. download ex_self ''a.jar'' ''/tmp/out'' (ex_world ex_listing)
           = (Inr ex_jar_new, ex_self, w')
         \<and> files w' ''/tmp/out/a.jar'' = Some ''new'')
   \<and> files (ex_world ex_listing) ''/tmp/out/a.jar'' = Some ''stale''
   \<and> (\<exists>w'. download ex_self '''' '''' (ex_world ex_listing) = (Inr ex_jar_new, ex_self, w')
         \<and> files w' ''/tmp/a.jar'' = Some ''new'')"
proof -
  obtain w1 where d1:
    "download ex_self ''a.jar'' ''/tmp/out'' (ex_world ex_listing)
       = (Inr ex_jar_new, ex_self, w1)"
    by (simp add: run_defs ex_defs)
  obtain w2 where d2:
    "download ex_self '''' '''' (ex_world ex_listing) = (Inr ex_jar_new, ex_self, w2)"
    by (simp add: run_defs ex_defs)
  have j1: "os_path_join ''/tmp/out'' (name ex_jar_new) = ''/tmp/out/a.jar''"
    by (simp add: os_path_join_def startswith_sep_def endswith_sep_def ex_jar_new_def)
  have j2: "os_path_join ''/tmp'' (name ex_jar_new) = ''/tmp/a.jar''"
    by (simp add: os_path_join_def startswith_sep_def endswith_sep_def ex_jar_new_def)
  have s: "stream ex_jar_new = ''new''" by (simp add: ex_jar_new_def)
  have o: "files (ex_world ex_listing) ''/tmp/out/a.jar'' = Some ''stale''"
    by (simp add: ex_world_def)
  from download_writes_selected_entry[OF d1] j1 s
  have "files w1 ''/tmp/out/a.jar'' = Some ''new''" by simp
  moreover from download_writes_selected_entry[OF d2] j2 s
  have "files w2 ''/tmp/a.jar'' = Some ''new''" by simp
  ultimately show ?thesis using d1 d2 o by blast
qed



subsection \<open>The listing URL\<close>

text \<open>
  C6. The URL handed to the client at construction, and the URL \<open>construct_url\<close> gives for
  the constructed instance, is the constructor's arguments put into the template as they
  are: \<^verbatim>\<open>https://h\<close>, \<^verbatim>\<open>r\<close>, \<^verbatim>\<open>g\<close>, \<^verbatim>\<open>a\<close>, \<^verbatim>\<open>v\<close> give \<^verbatim>\<open>https://h/artifactory/r/g/a/v\<close>; a
  trailing slash, a space or a question mark in an argument is kept.
\<close>

theorem listing_url_interpolation:
  "path_url (client (fst (init u r g a v un pw ar kw w)))
     = u @ ''/artifactory/'' @ r @ ''/'' @ g @ ''/'' @ a @ ''/'' @ v
   \<and> fst (construct_url (fst (init u r g a v un pw ar kw w)) w')
     = u @ ''/artifactory/'' @ r @ ''/'' @ g @ ''/'' @ a @ ''/'' @ v
   \<and> path_url (client (fst (init ''https://h'' ''r'' ''g'' ''a'' ''v'' un pw ar kw w)))
     = ''https://h/artifactory/r/g/a/v''
   \<and> path_url (client (fst (init ''https://h/'' ''my repo'' ''g/'' ''a?b'' ''v/'' un pw ar kw w)))
     = ''https://h//artifactory/my repo/g//a?b/v/''"
  by (simp add: init_value construct_url_def Let_def)

text \<open>
  C10. With \<^verbatim>\<open>repo\<close>, \<^verbatim>\<open>group\<close>, \<^verbatim>\<open>artifact\<close> and \<^verbatim>\<open>version\<close> left at their defaults the URL is
  the server URL followed by \<^verbatim>\<open>/artifactory////\<close>: all four separators stand, next to
  each other. The same holds around a single segment that is given.
\<close>

theorem listing_url_defaults:
  "path_url (client (fst (init_call u None None None None un pw ar kw w)))
     = u @ ''/artifactory////''
   \<and> path_url (client (fst (init_call u None (Some g) None None un pw ar kw w)))
     = u @ ''/artifactory//'' @ g @ ''//''"
  by (simp add: init_call_def or_default_def init_value)

subsection \<open>The instance\<close>

text \<open>
  C8. The constructor sets the seven fields from its arguments and the client from the
  constructed URL and the credentials. \<open>download\<close>, \<open>get_by_name\<close> and \<open>get_latest\<close> each
  return the instance as they received it, client included. What they select depends on
  the world only through what that one client enumerates: two worlds that agree on the
  listing of the instance's client give the same outcome of \<open>get_by_name\<close>, of
  \<open>get_latest\<close> and of the selection of \<open>download\<close>, and an entry that \<open>download\<close> returns in
  one of them is the entry selected in the other.
\<close>

theorem instance_never_mutated:
  "fst (init u r g a v un pw ar kw w) =
     \<lparr>url = u, repo = r, group = g, artifact = a, version = v, username = un, password = pw,
      client = \<lparr>path_url = fst (construct_url \<lparr>url = u, repo = r, group = g, artifact = a,
                    version = v, username = un, password = pw\<rparr> w),
                 auth = (un, pw), args = ar, kwargs = kw\<rparr>\<rparr>
   \<and> fst (snd (download self n p w)) = self
   \<and> fst (snd (get_by_name self n w)) = self
   \<and> fst (snd (get_latest self m w)) = self
   \<and> (server w1 (client self) = server w2 (client self) \<longrightarrow>
        fst (get_by_name self n w1) = fst (get_by_name self n w2)
        \<and> fst (get_latest self m w1) = fst (get_latest self m w2)
        \<and> fst (select_artifact self n w1) = fst (select_artifact self n w2))
   \<and> (server w1 (client self) = server w2 (client self)
        \<and> fst (download self n p w1) = Inr e \<longrightarrow>
        fst (select_artifact self n w2) = Inr e)"
proof -
  have sel: "fst (get_by_name self n w1) = fst (get_by_name self n w2)
             \<and> fst (get_latest self m' w1) = fst (get_latest self m' w2)"
    if "server w1 (client self) = server w2 (client self)" for m'
    using that by (simp add: get_by_name_def get_latest_def split: option.splits)
  have pick: "fst (select_artifact self n w1) = fst (select_artifact self n w2)"
    if "server w1 (client self) = server w2 (client self)"
    using sel[OF that, of default_mime_type] by (simp add: select_artifact_def)
  have "fst (select_artifact self n w2) = Inr e"
    if "server w1 (client self) = server w2 (client self)" "fst (download self n p w1) = Inr e"
    using pick[OF that(1)] download_Inr_select[OF that(2)] by simp
  with sel[of m] pick show ?thesis
    by (simp add: init_value construct_url_def Let_def download_self get_by_name_self
        get_latest_self)
qed

theorem instance_never_mutated_witness:
  "server (ex_world ex_listing) (client ex_self)
     = server (ex_world_any ex_listing) (client ex_self)
   \<and> fst (select_artifact ex_self ''a.jar'' (ex_world ex_listing))
       = fst (select_artifact ex_self ''a.jar'' (ex_world_any ex_listing))
   \<and> fst (download ex_self ''a.jar'' ''/tmp/out'' (ex_world ex_listing)) = Inr ex_jar_new
   \<and> fst (select_artifact ex_self ''a.jar'' (ex_world_any ex_listing)) = Inr ex_jar_new
   \<and> fst (download ex_self ''a.jar'' ''/tmp/out'' (ex_world_any ex_listing))
       = Inl (OSError PermissionError ''/tmp/out/a.jar'')
   \<and> fst (snd (download ex_self ''a.jar'' ''/tmp/out'' (ex_world ex_listing))) = ex_self
   \<and> client ex_self = \<lparr>path_url = ''https://h/artifactory/r/g/a/v'',
                         auth = (''user'', ''secret''), args = [], kwargs = []\<rparr>"
proof -
  have h: "server (ex_world ex_listing) (client ex_self)
             = server (ex_world_any ex_listing) (client ex_self)"
    by (simp add: ex_defs ex_world_any_def)
  have d: "fst (download ex_self ''a.jar'' ''/tmp/out'' (ex_world ex_listing)) = Inr ex_jar_new"
    by (simp add: run_defs ex_defs)
  have f: "fst (download ex_self ''a.jar'' ''/tmp/out'' (ex_world_any ex_listing))
             = Inl (OSError PermissionError ''/tmp/out/a.jar'')"
    by (simp add: run_defs ex_defs ex_world_any_def)
  have c: "client ex_self = \<lparr>path_url = ''https://h/artifactory/r/g/a/v'',
             auth = (''user'', ''secret''), args = [], kwargs = []\<rparr>"
    by (simp add: ex_defs)
  from h d f c instance_never_mutated[where self = ex_self and n = "''a.jar''"
      and p = "''/tmp/out''" and w = "ex_world ex_listing" and ?w1.0 = "ex_world ex_listing"
      and ?w2.0 = "ex_world_any ex_listing" and e = ex_jar_new]
  show ?thesis by simp
qed

end
